theory Spec2Isabelle
  imports Main "HOL-Library.Sublist"
begin

section \<open>Errors and log lines\<close>

text \<open>
  Everything that can be thrown in the two source files. A rejected store call carries
  whatever the Prisma client threw: a \<open>PrismaClientKnownRequestError\<close> with its code
  (\<open>P2002\<close>, \<open>P2025\<close>, ...) or any other error. \<open>TypeError\<close> is what JavaScript throws
  when a property of \<open>undefined\<close> is read. The messages of the source's own errors are
  left out.
\<close>

datatype error =
    PrismaClientKnownRequestError string
  | OtherError string
  | TypeError
  | UserNotFoundError
  | UserPasswordBadError

type_synonym Date = int
  \<comment> \<open>a valid JavaScript \<open>Date\<close>, by its time value: milliseconds since
      1970-01-01T00:00:00Z, negative before it\<close>

type_synonym AnimeInfoSource = string
  \<comment> \<open>the Prisma enum; at run time its values are strings, compared with \<open>===\<close>\<close>

datatype logEntry =
    InfoCreated string
  | TraceSite string AnimeInfoSource string
  | TraceFiles string nat
  | ErrorCreate error
  | ErrorLink error
  | InfoUpdating AnimeInfoSource string
  | InfoUpdated Date

section \<open>The entity store\<close>

text \<open>
  Modelled from the spec: the Prisma schema (the models \<open>Anime\<close>, \<open>AnimeSiteLink\<close>,
  \<open>LibFile\<close> and \<open>User\<close>) is not among the sources. The fields are the ones the two
  source files read and write; following the spec's data model a site link has the
  composite key \<open>(siteId, siteType)\<close> and a nullable \<open>lastUpdate\<close>, and a file has a
  nullable \<open>animeId\<close> and a \<open>removed\<close> flag.

  How many anime a site link can be related to is declared by the schema too. The spec's
  data model gives a link one anime; the comments of \<open>updateAllInfo\<close> speak of all the
  anime related to one site. So the relation is a parameter, kept with the store: a
  link records the anime it is related to (\<open>animeIds\<close>), one of them at most when the
  relation is \<open>OneToMany\<close>.
\<close>

datatype linkRelation = OneToMany | ManyToMany

record anime =
  anime_id :: nat
  anime_name :: string
  originalName :: string
  bdrip :: bool
  nsfw :: bool
  platform :: string
  date :: "Date option"
  releaseYear :: "int option"
  releaseSeason :: string
  region :: string

record animeSiteLink =
  siteId :: string
  siteType :: AnimeInfoSource
  lastUpdate :: "Date option"
  animeIds :: "nat list"

record libFile =
  file_id :: nat
  libraryId :: nat
  path :: string
  file_name :: string
  removed :: bool
  file_animeId :: "nat option"

record db =
  animes :: "anime list"
  siteLinks :: "animeSiteLink list"
  libFiles :: "libFile list"
  nextAnimeId :: nat
  sitesRelation :: linkRelation

text \<open>The scraper's result (\<open>LibraryScrapeResult\<close>), as far as the manager reads it.\<close>

record siteLinkInput =
  in_siteId :: string
  in_siteType :: AnimeInfoSource

record scrapedAnime =
  s_name :: string
  s_originalName :: string
  s_bdrip :: bool
  s_nsfw :: bool
  s_platform :: string
  s_date :: "Date option"
  s_releaseYear :: "int option"
  s_releaseSeason :: string
  s_region :: string
  s_sites :: "siteLinkInput list"

record newAnimeResult =
  new_anime :: scrapedAnime
  new_files :: "libFile list"

record existingAnimeResult =
  ex_anime :: anime
  ex_files :: "libFile list"

record libraryScrapeResult =
  newAnime :: "newAnimeResult list"
  existingAnime :: "existingAnimeResult list"

text \<open>
  When a store call is rejected depends on things outside the two files (the schema's
  constraints, the connection), so it is a parameter: for every call, the error the
  client throws in a given store, if any. A rejected call leaves the store as it was.
\<close>

record faults =
  createFault :: "db \<Rightarrow> scrapedAnime \<Rightarrow> error option"
  connectFault :: "db \<Rightarrow> nat \<Rightarrow> siteLinkInput \<Rightarrow> error option"
  updateManyFault :: "db \<Rightarrow> nat list \<Rightarrow> nat \<Rightarrow> error option"
  findManyFault :: "db \<Rightarrow> error option"

text \<open>\<open>usePrisma.anime.create\<close>: a new row with the next id, the data copied field by field.\<close>

definition anime_create :: "faults \<Rightarrow> db \<Rightarrow> scrapedAnime \<Rightarrow> error + (anime \<times> db)" where
  "anime_create F d a =
     (case createFault F d a of
        Some e \<Rightarrow> Inl e
      | None \<Rightarrow>
          (let row = \<lparr>anime_id = nextAnimeId d, anime_name = s_name a,
                       originalName = s_originalName a, bdrip = s_bdrip a, nsfw = s_nsfw a,
                       platform = s_platform a, date = s_date a,
                       releaseYear = s_releaseYear a, releaseSeason = s_releaseSeason a,
                       region = s_region a\<rparr>
           in Inr (row, d\<lparr>animes := animes d @ [row],
                           nextAnimeId := Suc (nextAnimeId d)\<rparr>)))"

definition sameKey :: "siteLinkInput \<Rightarrow> animeSiteLink \<Rightarrow> bool" where
  "sameKey k l = (siteId l = in_siteId k \<and> siteType l = in_siteType k)"

text \<open>
  Connecting a link to an anime: with several anime per link the anime joins the ones
  the link is related to already (nothing changes when it is one of them); with one
  anime per link it takes the place of the one before.
\<close>

definition connectAnime :: "linkRelation \<Rightarrow> nat \<Rightarrow> nat list \<Rightarrow> nat list" where
  "connectAnime rel aid ids =
     (case rel of
        OneToMany \<Rightarrow> [aid]
      | ManyToMany \<Rightarrow> if aid \<in> set ids then ids else ids @ [aid])"

text \<open>
  \<open>usePrisma.anime.update\<close> with a nested \<open>connectOrCreate\<close> on \<open>sites\<close>: the anime
  must exist (\<open>P2025\<close> otherwise); a link with the key \<open>siteId_siteType\<close> is connected
  to this anime when there is one, and created for this anime when there is none.
\<close>

definition anime_update_connectOrCreate ::
    "faults \<Rightarrow> db \<Rightarrow> nat \<Rightarrow> siteLinkInput \<Rightarrow> error + db" where
  "anime_update_connectOrCreate F d aid k =
     (case connectFault F d aid k of
        Some e \<Rightarrow> Inl e
      | None \<Rightarrow>
          if \<not> list_ex (\<lambda>a. anime_id a = aid) (animes d)
          then Inl (PrismaClientKnownRequestError ''P2025'')
          else if list_ex (sameKey k) (siteLinks d)
          then Inr (d\<lparr>siteLinks :=
                 map (\<lambda>l. if sameKey k l
                           then l\<lparr>animeIds := connectAnime (sitesRelation d) aid (animeIds l)\<rparr>
                           else l) (siteLinks d)\<rparr>)
          else Inr (d\<lparr>siteLinks := siteLinks d @
                 [\<lparr>siteId = in_siteId k, siteType = in_siteType k,
                   lastUpdate = None, animeIds = [aid]\<rparr>]\<rparr>))"

text \<open>\<open>usePrisma.libFile.updateMany\<close> with \<open>id in ids\<close>: the count of the rows it matched.\<close>

definition libFile_updateMany ::
    "faults \<Rightarrow> db \<Rightarrow> nat list \<Rightarrow> nat \<Rightarrow> error + (nat \<times> db)" where
  "libFile_updateMany F d ids target =
     (case updateManyFault F d ids target of
        Some e \<Rightarrow> Inl e
      | None \<Rightarrow>
          Inr (length (filter (\<lambda>f. List.member ids (file_id f)) (libFiles d)),
               d\<lparr>libFiles :=
                  map (\<lambda>f. if List.member ids (file_id f)
                            then f\<lparr>file_animeId := Some target\<rparr> else f) (libFiles d)\<rparr>))"

section \<open>Statements that can throw\<close>

text \<open>
  The managers run against the store, the logger and the site updaters. \<open>calls\<close> records
  every \<open>updateRelationAnimes\<close> call that was started, in order. A statement maps a
  world to the error it threw, if any, and the world it left behind.
\<close>

datatype updater = BangumiAnimeInfoUpdater

record world =
  store :: db
  logs :: "logEntry list"
  calls :: "(updater \<times> string) list"

type_synonym stmt = "world \<Rightarrow> error option \<times> world"

definition logger :: "logEntry \<Rightarrow> world \<Rightarrow> world" where
  "logger e w = w\<lparr>logs := logs w @ [e]\<rparr>"

text \<open>\<open>for (const x of xs) body\<close>: the first error leaves the loop.\<close>

fun forOf :: "'a list \<Rightarrow> ('a \<Rightarrow> stmt) \<Rightarrow> stmt" where
  "forOf [] body w = (None, w)"
| "forOf (x # xs) body w =
     (case body x w of
        (Some e, w') \<Rightarrow> (Some e, w')
      | (None, w') \<Rightarrow> forOf xs body w')"

text \<open>\<open>try body catch (error) handler\<close>.\<close>

definition tryCatch :: "stmt \<Rightarrow> (error \<Rightarrow> stmt) \<Rightarrow> stmt" where
  "tryCatch body handler w =
     (case body w of
        (Some e, w') \<Rightarrow> handler e w'
      | (None, w') \<Rightarrow> (None, w'))"

section \<open>AnimeManager.applyLibraryScraperResult\<close>

text \<open>One turn of the loop over \<open>thisResult.anime.sites\<close>.\<close>

definition addSiteLink :: "faults \<Rightarrow> anime \<Rightarrow> newAnimeResult \<Rightarrow> siteLinkInput \<Rightarrow> stmt" where
  "addSiteLink F animeCreate thisResult siteLink w =
     (case anime_update_connectOrCreate F (store w) (anime_id animeCreate) siteLink of
        Inl e \<Rightarrow> (Some e, w)
      | Inr d \<Rightarrow>
          (None, logger (TraceSite (s_name (new_anime thisResult))
                           (in_siteType siteLink) (in_siteId siteLink))
                   (w\<lparr>store := d\<rparr>)))"

text \<open>The body of the \<open>try\<close> block for one item of \<open>newAnime\<close>.\<close>

definition createNewAnime :: "faults \<Rightarrow> newAnimeResult \<Rightarrow> stmt" where
  "createNewAnime F thisResult w =
     (case anime_create F (store w) (new_anime thisResult) of
        Inl e \<Rightarrow> (Some e, w)
      | Inr (animeCreate, d1) \<Rightarrow>
          (case forOf (s_sites (new_anime thisResult)) (addSiteLink F animeCreate thisResult)
                  (logger (InfoCreated (s_name (new_anime thisResult))) (w\<lparr>store := d1\<rparr>)) of
             (Some e, w2) \<Rightarrow> (Some e, w2)
           | (None, w2) \<Rightarrow>
               (case libFile_updateMany F (store w2) (map file_id (new_files thisResult))
                       (anime_id animeCreate) of
                  Inl e \<Rightarrow> (Some e, w2)
                | Inr (count, d3) \<Rightarrow>
                    (None, logger (TraceFiles (s_name (new_anime thisResult)) count)
                             (w2\<lparr>store := d3\<rparr>)))))"

text \<open>The body of the \<open>try\<close> block for one item of \<open>existingAnime\<close>.\<close>

definition linkExistingAnime :: "faults \<Rightarrow> existingAnimeResult \<Rightarrow> stmt" where
  "linkExistingAnime F thisResult w =
     (case libFile_updateMany F (store w) (map file_id (ex_files thisResult))
             (anime_id (ex_anime thisResult)) of
        Inl e \<Rightarrow> (Some e, w)
      | Inr (count, d) \<Rightarrow>
          (None, logger (TraceFiles (anime_name (ex_anime thisResult)) count)
                   (w\<lparr>store := d\<rparr>)))"

text \<open>One turn of each of the two loops: the \<open>try\<close> block and its \<open>catch\<close>.\<close>

definition newAnimeItem :: "faults \<Rightarrow> newAnimeResult \<Rightarrow> stmt" where
  "newAnimeItem F thisResult =
     tryCatch (createNewAnime F thisResult) (\<lambda>e w. (None, logger (ErrorCreate e) w))"

definition existingAnimeItem :: "faults \<Rightarrow> existingAnimeResult \<Rightarrow> stmt" where
  "existingAnimeItem F thisResult =
     tryCatch (linkExistingAnime F thisResult) (\<lambda>e w. (None, logger (ErrorLink e) w))"

definition applyLibraryScraperResult :: "faults \<Rightarrow> libraryScrapeResult \<Rightarrow> stmt" where
  "applyLibraryScraperResult F result w =
     (case forOf (newAnime result) (newAnimeItem F) w of
        (Some e, w1) \<Rightarrow> (Some e, w1)
      | (None, w1) \<Rightarrow> forOf (existingAnime result) (existingAnimeItem F) w1)"



section \<open>AnimeManager.updateAllInfo\<close>

text \<open>
  The filter \<open>lastUpdate: { lte: before }\<close> of the query never matches a null column;
  the query names the null case in a disjunct of its own.
\<close>

definition prisma_lte :: "Date option \<Rightarrow> Date \<Rightarrow> bool" where
  "prisma_lte v before = (case v of None \<Rightarrow> False | Some t \<Rightarrow> t \<le> before)"

definition sitesOf :: "db \<Rightarrow> anime \<Rightarrow> animeSiteLink list" where
  "sitesOf d a = filter (\<lambda>l. anime_id a \<in> set (animeIds l)) (siteLinks d)"

definition anime_findMany ::
    "faults \<Rightarrow> db \<Rightarrow> Date \<Rightarrow> error + (anime \<times> animeSiteLink list) list" where
  "anime_findMany F d before =
     (case findManyFault F d of
        Some e \<Rightarrow> Inl e
      | None \<Rightarrow>
          Inr (map (\<lambda>a. (a, sitesOf d a))
                 (filter (\<lambda>a. list_ex (\<lambda>l. prisma_lte (lastUpdate l) before
                                          \<or> lastUpdate l = None) (sitesOf d a))
                    (animes d))))"

text \<open>
  JavaScript's \<open>site.lastUpdate <= before\<close> on \<open>Date | null\<close> and \<open>Date\<close>: both sides
  are turned into numbers, a date into its time value and \<open>null\<close> into \<open>0\<close>.
\<close>

definition js_lte :: "Date option \<Rightarrow> Date \<Rightarrow> bool" where
  "js_lte v before = (case v of None \<Rightarrow> 0 \<le> before | Some t \<Rightarrow> t \<le> before)"

definition allSitesOutdated ::
    "(anime \<times> animeSiteLink list) list \<Rightarrow> Date \<Rightarrow> animeSiteLink list" where
  "allSitesOutdated animeNeedToUpdate before =
     concat (map (\<lambda>(a, sites). filter (\<lambda>site. js_lte (lastUpdate site) before) sites)
               animeNeedToUpdate)"

definition getInfoUpdater :: "AnimeInfoSource \<Rightarrow> updater option" where
  "getInfoUpdater siteType' =
     (if siteType' = ''Bangumi'' then Some BangumiAnimeInfoUpdater else None)"

text \<open>
  The updaters' \<open>updateRelationAnimes\<close> is not among the sources: it is the parameter
  \<open>U\<close>, which may change the store in any way and may throw (after changing it).
  One turn of the loop over \<open>allSitesOutdated\<close>: calling a method of \<open>undefined\<close> throws.
\<close>

definition updateSite ::
    "(updater \<Rightarrow> db \<Rightarrow> string \<Rightarrow> error option \<times> db) \<Rightarrow> animeSiteLink \<Rightarrow> stmt" where
  "updateSite U site w =
     (let w1 = logger (InfoUpdating (siteType site) (siteId site)) w in
      case getInfoUpdater (siteType site) of
        None \<Rightarrow> (Some TypeError, w1)
      | Some u \<Rightarrow>
          (case U u (store w1) (siteId site) of
             (r, d) \<Rightarrow> (r, w1\<lparr>store := d, calls := calls w1 @ [(u, siteId site)]\<rparr>)))"

definition updateAllInfo ::
    "(updater \<Rightarrow> db \<Rightarrow> string \<Rightarrow> error option \<times> db) \<Rightarrow> faults \<Rightarrow> Date \<Rightarrow> stmt" where
  "updateAllInfo U F before w =
     (case anime_findMany F (store w) before of
        Inl e \<Rightarrow> (Some e, w)
      | Inr animeNeedToUpdate \<Rightarrow>
          (case forOf (allSitesOutdated animeNeedToUpdate before) (updateSite U) w of
             (Some e, w') \<Rightarrow> (Some e, w')
           | (None, w') \<Rightarrow> (None, logger (InfoUpdated before) w')))"

section \<open>LibraryReader\<close>

text \<open>
  \<open>path/posix\<close> is Node's library: \<open>parse\<close> splits a path into directory and base
  name, \<open>join\<close> of one path normalises it. The reader is given both.
\<close>

record nodePath =
  parse :: "string \<Rightarrow> string \<times> string"
  join :: "string \<Rightarrow> string"

text \<open>\<open>usePrisma.libFile.findUnique\<close> and \<open>findMany\<close> with a \<open>where\<close> filter.\<close>

definition libFile_findUnique ::
    "faults \<Rightarrow> db \<Rightarrow> (libFile \<Rightarrow> bool) \<Rightarrow> error + libFile option" where
  "libFile_findUnique F d wh =
     (case findManyFault F d of
        Some e \<Rightarrow> Inl e
      | None \<Rightarrow> Inr (find wh (libFiles d)))"

definition libFile_findMany ::
    "faults \<Rightarrow> db \<Rightarrow> (libFile \<Rightarrow> bool) \<Rightarrow> error + libFile list" where
  "libFile_findMany F d wh =
     (case findManyFault F d of
        Some e \<Rightarrow> Inl e
      | None \<Rightarrow> Inr (filter wh (libFiles d)))"

text \<open>\<open>library\<close> is \<open>this.libraryTool.library.id\<close>.\<close>

definition getFile ::
    "nodePath \<Rightarrow> faults \<Rightarrow> nat \<Rightarrow> db \<Rightarrow> string \<Rightarrow> error + libFile option" where
  "getFile N F library d path' =
     (let parsePath = parse N path' in
      libFile_findUnique F d
        (\<lambda>f. libraryId f = library \<and> path f = fst parsePath \<and> file_name f = snd parsePath
              \<and> removed f = False))"

definition getFirstSubFiles ::
    "nodePath \<Rightarrow> faults \<Rightarrow> nat \<Rightarrow> db \<Rightarrow> string \<Rightarrow> error + libFile list" where
  "getFirstSubFiles N F library d path' =
     (let p = join N path' in
      libFile_findMany F d
        (\<lambda>f. libraryId f = library \<and> removed f = False \<and> path f = p))"

definition getFirstSubFilesWithNoAnime ::
    "nodePath \<Rightarrow> faults \<Rightarrow> nat \<Rightarrow> db \<Rightarrow> string \<Rightarrow> error + libFile list" where
  "getFirstSubFilesWithNoAnime N F library d path' =
     (let p = join N path' in
      libFile_findMany F d
        (\<lambda>f. libraryId f = library \<and> removed f = False \<and> path f = p
              \<and> file_animeId f = None))"

definition getAllSubFiles ::
    "nodePath \<Rightarrow> faults \<Rightarrow> nat \<Rightarrow> db \<Rightarrow> string \<Rightarrow> error + libFile list" where
  "getAllSubFiles N F library d path' =
     (let p = join N path' in
      libFile_findMany F d
        (\<lambda>f. libraryId f = library \<and> removed f = False \<and> prefix p (path f)))"

section \<open>UserManager.changePassword\<close>

record user =
  user_id :: nat
  encryption :: string
  password :: string

text \<open>
  \<open>usePrisma.user.update\<close> by id: \<open>P2025\<close> when no user has the id. \<open>G\<close> is the error
  the client throws for any other reason, if it does.
\<close>

definition user_update ::
    "(user list \<Rightarrow> nat \<Rightarrow> error option) \<Rightarrow> user list \<Rightarrow> nat \<Rightarrow> string \<Rightarrow> string
       \<Rightarrow> error + user list" where
  "user_update G us userId enc pw =
     (case G us userId of
        Some e \<Rightarrow> Inl e
      | None \<Rightarrow>
          if \<not> list_ex (\<lambda>u. user_id u = userId) us
          then Inl (PrismaClientKnownRequestError ''P2025'')
          else Inr (map (\<lambda>u. if user_id u = userId
                              then u\<lparr>encryption := enc, password := pw\<rparr> else u) us))"

text \<open>
  \<open>UserValidator.isSecurePassword\<close> and the password classes are not among the sources:
  \<open>isSecurePassword\<close> is the validator, \<open>stringify\<close> gives the stored form of a password
  salted with the fresh salt. The result is the error thrown, if any, and the users.
\<close>

definition changePassword ::
    "(string \<Rightarrow> bool) \<Rightarrow> (string \<Rightarrow> string) \<Rightarrow> (user list \<Rightarrow> nat \<Rightarrow> error option)
       \<Rightarrow> user list \<Rightarrow> nat \<Rightarrow> string \<Rightarrow> error option \<times> user list" where
  "changePassword isSecurePassword stringify G us userId newPassword =
     (if isSecurePassword newPassword = False then (Some UserPasswordBadError, us)
      else
        (case user_update G us userId ''Sha256'' (stringify newPassword) of
           Inr us' \<Rightarrow> (None, us')
         | Inl e \<Rightarrow>
             (case e of
                PrismaClientKnownRequestError code \<Rightarrow>
                  if code = ''P2025'' then (Some UserNotFoundError, us) else (None, us)
              | _ \<Rightarrow> (None, us))))"

section \<open>Example stores\<close>

text \<open>A store that rejects nothing, one anime and four files of two libraries.\<close>

definition noFaults :: faults where
  "noFaults = \<lparr>createFault = (\<lambda>d a. None), connectFault = (\<lambda>d aid k. None),
                updateManyFault = (\<lambda>d ids t. None), findManyFault = (\<lambda>d. None)\<rparr>"

definition showA :: anime where
  "showA = \<lparr>anime_id = 1, anime_name = ''Show A'', originalName = ''Show A'', bdrip = False,
             nsfw = False, platform = ''TV'', date = None, releaseYear = Some 2020,
             releaseSeason = ''spring'', region = ''JP''\<rparr>"

definition file10 :: libFile where
  "file10 = \<lparr>file_id = 10, libraryId = 1, path = ''/a'', file_name = ''x.mkv'',
              removed = False, file_animeId = None\<rparr>"

definition file11 :: libFile where
  "file11 = \<lparr>file_id = 11, libraryId = 1, path = ''/a'', file_name = ''y.mkv'',
              removed = True, file_animeId = None\<rparr>"

definition file12 :: libFile where
  "file12 = \<lparr>file_id = 12, libraryId = 2, path = ''/a'', file_name = ''x.mkv'',
              removed = False, file_animeId = None\<rparr>"

definition file13 :: libFile where
  "file13 = \<lparr>file_id = 13, libraryId = 1, path = ''/a/b'', file_name = ''z.mkv'',
              removed = False, file_animeId = Some 1\<rparr>"

text \<open>
  A store whose anime has four Bangumi links: refreshed at 5, never refreshed, refreshed
  at 20 and refreshed at 7.
\<close>

definition scanStore :: db where
  "scanStore =
     \<lparr>animes = [showA],
      siteLinks =
        [\<lparr>siteId = ''1'', siteType = ''Bangumi'', lastUpdate = Some 5, animeIds = [1]\<rparr>,
         \<lparr>siteId = ''2'', siteType = ''Bangumi'', lastUpdate = None, animeIds = [1]\<rparr>,
         \<lparr>siteId = ''3'', siteType = ''Bangumi'', lastUpdate = Some 20, animeIds = [1]\<rparr>,
         \<lparr>siteId = ''4'', siteType = ''Bangumi'', lastUpdate = Some 7, animeIds = [1]\<rparr>],
      libFiles = [file10, file11, file12, file13],
      nextAnimeId = 2,
      sitesRelation = ManyToMany\<rparr>"

definition scanWorld :: world where
  "scanWorld = \<lparr>store = scanStore, logs = [], calls = []\<rparr>"

text \<open>A store whose anime has a link of a site type without updater, then a Bangumi link.\<close>

definition unknownStore :: db where
  "unknownStore =
     \<lparr>animes = [showA],
      siteLinks =
        [\<lparr>siteId = ''9'', siteType = ''Unknown'', lastUpdate = Some 5, animeIds = [1]\<rparr>,
         \<lparr>siteId = ''1'', siteType = ''Bangumi'', lastUpdate = Some 5, animeIds = [1]\<rparr>],
      libFiles = [],
      nextAnimeId = 2,
      sitesRelation = ManyToMany\<rparr>"

definition unknownWorld :: world where
  "unknownWorld = \<lparr>store = unknownStore, logs = [], calls = []\<rparr>"

text \<open>
  Two updaters: one stamps the links of the site id with the time \<open>now\<close>, the other
  throws on the site id \<open>bad\<close> and stamps the links of any other with 100.
\<close>

definition touchUpdater :: "Date \<Rightarrow> updater \<Rightarrow> db \<Rightarrow> string \<Rightarrow> error option \<times> db" where
  "touchUpdater now u d sid =
     (None, d\<lparr>siteLinks :=
               map (\<lambda>l. if siteId l = sid then l\<lparr>lastUpdate := Some now\<rparr> else l)
                 (siteLinks d)\<rparr>)"

definition failingUpdater :: "string \<Rightarrow> updater \<Rightarrow> db \<Rightarrow> string \<Rightarrow> error option \<times> db" where
  "failingUpdater bad u d sid =
     (if sid = bad then (Some (OtherError ''network''), d) else touchUpdater 100 u d sid)"

text \<open>
  A store where \<open>Show A\<close> owns the link \<open>(123, Bangumi)\<close>; a scraped \<open>Show B\<close> that
  proposes the links 456, 123 and 789 and the files 10 and 11; a store that rejects the
  connection of the link 123.
\<close>

definition ownedStore :: db where
  "ownedStore =
     \<lparr>animes = [showA],
      siteLinks = [\<lparr>siteId = ''123'', siteType = ''Bangumi'', lastUpdate = Some 5, animeIds = [1]\<rparr>],
      libFiles = [file10, file11],
      nextAnimeId = 2,
      sitesRelation = ManyToMany\<rparr>"

definition ownedWorld :: world where
  "ownedWorld = \<lparr>store = ownedStore, logs = [], calls = []\<rparr>"

definition scraped :: "string \<Rightarrow> siteLinkInput list \<Rightarrow> scrapedAnime" where
  "scraped n ks =
     \<lparr>s_name = n, s_originalName = n, s_bdrip = False, s_nsfw = False, s_platform = ''TV'',
      s_date = None, s_releaseYear = None, s_releaseSeason = ''spring'', s_region = ''JP'',
      s_sites = ks\<rparr>"

definition bangumi :: "string \<Rightarrow> siteLinkInput" where
  "bangumi sid = \<lparr>in_siteId = sid, in_siteType = ''Bangumi''\<rparr>"

definition itemB :: newAnimeResult where
  "itemB = \<lparr>new_anime = scraped ''Show B'' [bangumi ''456'', bangumi ''123'', bangumi ''789''],
             new_files = [file10, file11]\<rparr>"

definition batchB :: libraryScrapeResult where
  "batchB = \<lparr>newAnime = [itemB], existingAnime = []\<rparr>"

definition linkFaults :: faults where
  "linkFaults =
     noFaults\<lparr>connectFault :=
       (\<lambda>d aid k. if in_siteId k = ''123'' then Some (OtherError ''link'') else None)\<rparr>"





text \<open>
  \<open>parse\<close> and \<open>join\<close> as they act on a normal absolute path with no trailing slash; a
  user table, and a store that has lost its connection.
\<close>

definition posixPath :: nodePath where
  "posixPath =
     \<lparr>parse = (\<lambda>p. (rev (tl (dropWhile (\<lambda>c. c \<noteq> CHR ''/'') (rev p))),
                      rev (takeWhile (\<lambda>c. c \<noteq> CHR ''/'') (rev p)))),
      join = (\<lambda>p. p)\<rparr>"

definition someUsers :: "user list" where
  "someUsers = [\<lparr>user_id = 1, encryption = ''Sha256'', password = ''old''\<rparr>]"

definition connectionLost :: "user list \<Rightarrow> nat \<Rightarrow> error option" where
  "connectionLost us userId = Some (OtherError ''connection lost'')"

section \<open>Unfolding the model\<close>

lemmas scan_defs =
  updateAllInfo_def anime_findMany_def sitesOf_def prisma_lte_def allSitesOutdated_def js_lte_def
  updateSite_def getInfoUpdater_def logger_def

lemmas apply_defs =
  applyLibraryScraperResult_def newAnimeItem_def existingAnimeItem_def tryCatch_def
  createNewAnime_def linkExistingAnime_def addSiteLink_def anime_create_def
  anime_update_connectOrCreate_def libFile_updateMany_def sameKey_def logger_def Let_def

section \<open>Loops and the logger\<close>

lemma forOf_append:
  "forOf (xs @ ys) body w =
     (case forOf xs body w of (Some e, w') \<Rightarrow> (Some e, w') | (None, w') \<Rightarrow> forOf ys body w')"
  by (induction xs arbitrary: w) (auto split: prod.splits option.splits)


lemma forOf_keeps:
  "(\<And>x w. obs (snd (body x w)) = obs w) \<Longrightarrow> obs (snd (forOf xs body w)) = obs w"
proof (induction xs arbitrary: w)
  case Nil
  then show ?case by simp
next
  case (Cons x xs)
  have "obs (snd (body x w)) = obs w" by (rule Cons.prems)
  with Cons show ?case by (cases "body x w") (auto split: option.splits)
qed

lemma logger_simps [simp]:
  "store (logger e w) = store w" "calls (logger e w) = calls w" "logs (logger e w) = logs w @ [e]"
  by (simp_all add: logger_def)

section \<open>Facts about the scan\<close>

lemma updateSite_unregistered:
  "getInfoUpdater (siteType site) = None \<Longrightarrow>
   updateSite U site w = (Some TypeError, logger (InfoUpdating (siteType site) (siteId site)) w)"
  by (simp add: updateSite_def)

lemma updateSite_registered:
  "getInfoUpdater (siteType site) = Some u \<Longrightarrow>
   updateSite U site w =
     (fst (U u (store w) (siteId site)),
      (logger (InfoUpdating (siteType site) (siteId site)) w)
        \<lparr>store := snd (U u (store w) (siteId site)), calls := calls w @ [(u, siteId site)]\<rparr>)"
  by (simp add: updateSite_def split: prod.splits)

lemma updateSite_frame:
  assumes "updateSite U site w = (r, w')"
  shows "\<exists>cs. calls w' = calls w @ cs
           \<and> store w' = foldl (\<lambda>d (u, sid). snd (U u d sid)) (store w) cs"
proof (cases "getInfoUpdater (siteType site)")
  case None
  with assms have "calls w' = calls w @ [] \<and> store w' = store w"
    by (auto simp: updateSite_unregistered)
  then show ?thesis by (metis foldl_Nil)
next
  case (Some u)
  with assms have "calls w' = calls w @ [(u, siteId site)]
      \<and> store w' = snd (U u (store w) (siteId site))"
    by (auto simp: updateSite_registered)
  then show ?thesis by (intro exI[of _ "[(u, siteId site)]"]) simp
qed

lemma forOf_updateSite_frame:
  "forOf sites (updateSite U) w = (r, w') \<Longrightarrow>
   \<exists>cs. calls w' = calls w @ cs
      \<and> store w' = foldl (\<lambda>d (u, sid). snd (U u d sid)) (store w) cs"
proof (induction sites arbitrary: w)
  case Nil
  then show ?case by simp
next
  case (Cons site sites)
  obtain r1 w1 where step: "updateSite U site w = (r1, w1)" by (cases "updateSite U site w")
  from updateSite_frame[OF step] obtain cs1 where
    cs1: "calls w1 = calls w @ cs1"
         "store w1 = foldl (\<lambda>d (u, sid). snd (U u d sid)) (store w) cs1" by blast
  show ?case
  proof (cases r1)
    case (Some e)
    with Cons.prems step have "w' = w1" by simp
    with cs1 show ?thesis by blast
  next
    case None
    with Cons.prems step have "forOf sites (updateSite U) w1 = (r, w')" by simp
    from Cons.IH[OF this] obtain cs2 where
      cs2: "calls w' = calls w1 @ cs2"
           "store w' = foldl (\<lambda>d (u, sid). snd (U u d sid)) (store w1) cs2" by blast
    from cs1 cs2 have "calls w' = calls w @ (cs1 @ cs2)
      \<and> store w' = foldl (\<lambda>d (u, sid). snd (U u d sid)) (store w) (cs1 @ cs2)" by simp
    then show ?thesis by blast
  qed
qed

lemma forOf_updateSite_calls:
  "forOf sites (updateSite U) w = (r, w') \<Longrightarrow>
   \<exists>n. calls w' = calls w @ map (\<lambda>site. (BangumiAnimeInfoUpdater, siteId site)) (take n sites)"
proof (induction sites arbitrary: w)
  case Nil
  then show ?case by simp
next
  case (Cons site sites)
  show ?case
  proof (cases "getInfoUpdater (siteType site)")
    case None
    with Cons.prems have "calls w' = calls w" by (auto simp: updateSite_unregistered)
    then show ?thesis by (intro exI[of _ 0]) simp
  next
    case (Some u)
    then have u: "u = BangumiAnimeInfoUpdater" by (cases u) simp
    let ?w1 = "snd (updateSite U site w)"
    have c1: "calls ?w1 = calls w @ [(BangumiAnimeInfoUpdater, siteId site)]"
      using Some u by (simp add: updateSite_registered)
    show ?thesis
    proof (cases "fst (updateSite U site w)")
      case (Some e)
      with Cons.prems have "w' = ?w1" by (auto split: prod.splits)
      with c1 show ?thesis by (intro exI[of _ 1]) simp
    next
      case None
      with Cons.prems have "forOf sites (updateSite U) ?w1 = (r, w')"
        by (auto split: prod.splits)
      from Cons.IH[OF this] obtain n where
        "calls w' = calls ?w1 @ map (\<lambda>site. (BangumiAnimeInfoUpdater, siteId site)) (take n sites)"
        by blast
      with c1 show ?thesis by (intro exI[of _ "Suc n"]) simp
    qed
  qed
qed

lemma allSitesOutdated_stale:
  "site \<in> set (allSitesOutdated found before) \<Longrightarrow> js_lte (lastUpdate site) before"
  by (auto simp: allSitesOutdated_def)

text \<open>
  From the epoch on, the filter keeps what the query's null disjunct selects: a link that
  was never refreshed is dispatched for every cutoff that is not before 1970.
\<close>

lemma null_link_stale_from_epoch:
  assumes "0 \<le> before"
    and "anime_findMany F d before = Inr found"
    and "a \<in> set (animes d)"
    and "l \<in> set (siteLinks d)"
    and "anime_id a \<in> set (animeIds l)"
    and "lastUpdate l = None"
  shows "l \<in> set (allSitesOutdated found before)"
proof -
  have mine: "l \<in> set (sitesOf d a)"
    using assms(4,5) by (simp add: sitesOf_def)
  with assms(6) have "list_ex (\<lambda>l. prisma_lte (lastUpdate l) before \<or> lastUpdate l = None)
                        (sitesOf d a)"
    by (auto simp: list_ex_iff)
  with assms(2,3) have "(a, sitesOf d a) \<in> set found"
    by (auto simp: anime_findMany_def split: option.splits)
  moreover have "js_lte (lastUpdate l) before"
    using assms(1,6) by (simp add: js_lte_def)
  ultimately show ?thesis
    using mine by (force simp: allSitesOutdated_def)
qed

section \<open>Facts about the reconciler\<close>

lemma anime_create_Inr:
  "anime_create F d p = Inr (a, d1) \<Longrightarrow>
     animes d1 = animes d @ [a] \<and> anime_name a = s_name p \<and> anime_id a = nextAnimeId d
     \<and> siteLinks d1 = siteLinks d \<and> libFiles d1 = libFiles d"
  by (auto simp: anime_create_def Let_def split: option.splits)

lemma connectOrCreate_keeps:
  "anime_update_connectOrCreate F d aid k = Inr d1 \<Longrightarrow>
     animes d1 = animes d \<and> libFiles d1 = libFiles d"
  by (auto simp: anime_update_connectOrCreate_def split: option.splits if_splits)


lemma addSiteLink_keeps:
  "animes (store (snd (addSiteLink F a x k w))) = animes (store w)
   \<and> libFiles (store (snd (addSiteLink F a x k w))) = libFiles (store w)"
  by (auto simp: addSiteLink_def dest: connectOrCreate_keeps split: sum.splits)

lemma addSiteLinks_keep:
  "animes (store (snd (forOf ks (addSiteLink F a x) w))) = animes (store w)"
  "libFiles (store (snd (forOf ks (addSiteLink F a x) w))) = libFiles (store w)"
  by (rule forOf_keeps, simp add: addSiteLink_keeps)+












lemma same_of_connected:
  "map animeIds (filter (sameKey k)
     (map (\<lambda>l. if sameKey k l then l\<lparr>animeIds := g (animeIds l)\<rparr> else l) ls))
   = map (\<lambda>l. g (animeIds l)) (filter (sameKey k) ls)"
  by (induction ls) (auto simp: sameKey_def)


















text \<open>
  With one anime per link, connecting a link that exists replaces the anime it had.
\<close>

lemma connect_one_owner:
  assumes "anime_update_connectOrCreate F d aid k = Inr d1"
    and "sitesRelation d = OneToMany"
  shows "map animeIds (filter (sameKey k) (siteLinks d1)) =
           map (\<lambda>l. [aid]) (filter (sameKey k) (siteLinks d))
         \<or> \<not> list_ex (sameKey k) (siteLinks d)"
  using assms
  by (auto simp: anime_update_connectOrCreate_def connectAnime_def same_of_connected
           split: option.splits if_splits)

section \<open>The claims\<close>

subsection \<open>The staleness scan\<close>

text \<open>
  C1. Claimed: a stale link whose site type has no updater is skipped without an error
  and the scan goes on. In the code \<open>getInfoUpdater\<close> returns nothing for such a type
  and \<open>updateAllInfo\<close> calls \<open>updateRelationAnimes\<close> on the result all the same: in a
  store whose stale links are one of type \<open>Unknown\<close> followed by one of type \<open>Bangumi\<close>,
  the scan ends with a \<open>TypeError\<close> at the first link, no updater has been called and
  the Bangumi link is never reached.
\<close>

theorem unknown_site_type_stops_scan:
  "getInfoUpdater ''Unknown'' = None
   \<and> map siteType (allSitesOutdated [(showA, siteLinks unknownStore)] 10)
        = [''Unknown'', ''Bangumi'']
   \<and> updateAllInfo (touchUpdater 100) noFaults 10 unknownWorld =
        (Some TypeError, unknownWorld\<lparr>logs := [InfoUpdating ''Unknown'' ''9'']\<rparr>)"
  by (simp add: scan_defs noFaults_def showA_def unknownStore_def unknownWorld_def touchUpdater_def)

text \<open>
  C3 (amended). When \<open>updateRelationAnimes\<close> throws for a stale link, nothing in the
  loop catches it: the error leaves \<open>updateAllInfo\<close> and reaches its caller, the links
  before that one have been dispatched, and the links after it are not dispatched.
\<close>

theorem updater_error_stops_scan:
  assumes "anime_findMany F (store w) before = Inr found"
    and "allSitesOutdated found before = pre @ site # post"
    and "forOf pre (updateSite U) w = (None, w1)"
    and "getInfoUpdater (siteType site) = Some u"
    and "U u (store w1) (siteId site) = (Some e, d)"
  shows "updateAllInfo U F before w =
           (Some e, (logger (InfoUpdating (siteType site) (siteId site)) w1)
                      \<lparr>store := d, calls := calls w1 @ [(u, siteId site)]\<rparr>)"
  using assms
  by (simp add: updateAllInfo_def forOf_append updateSite_registered)

theorem updater_error_stops_scan_witness:
  "updateAllInfo (failingUpdater ''2'') noFaults 10 scanWorld =
     (Some (OtherError ''network''),
      \<lparr>store = snd (touchUpdater 100 BangumiAnimeInfoUpdater scanStore ''1''),
       logs = [InfoUpdating ''Bangumi'' ''1'', InfoUpdating ''Bangumi'' ''2''],
       calls = [(BangumiAnimeInfoUpdater, ''1''), (BangumiAnimeInfoUpdater, ''2'')]\<rparr>)"
proof -
  let ?d1 = "snd (touchUpdater 100 BangumiAnimeInfoUpdater scanStore ''1'')"
  let ?w1 = "\<lparr>store = ?d1, logs = [InfoUpdating ''Bangumi'' ''1''],
              calls = [(BangumiAnimeInfoUpdater, ''1'')]\<rparr>"
  let ?l1 = "\<lparr>siteId = ''1'', siteType = ''Bangumi'', lastUpdate = Some 5, animeIds = [1]\<rparr>"
  let ?l2 = "\<lparr>siteId = ''2'', siteType = ''Bangumi'', lastUpdate = None, animeIds = [1]\<rparr>"
  let ?l4 = "\<lparr>siteId = ''4'', siteType = ''Bangumi'', lastUpdate = Some 7, animeIds = [1]\<rparr>"
  have h1: "anime_findMany noFaults (store scanWorld) 10 = Inr [(showA, siteLinks scanStore)]"
    by (simp add: scan_defs noFaults_def showA_def scanStore_def scanWorld_def touchUpdater_def failingUpdater_def)
  have h2: "allSitesOutdated [(showA, siteLinks scanStore)] 10 = [?l1] @ ?l2 # [?l4]"
    by (simp add: scan_defs noFaults_def showA_def scanStore_def scanWorld_def touchUpdater_def failingUpdater_def)
  have h3: "forOf [?l1] (updateSite (failingUpdater ''2'')) scanWorld = (None, ?w1)"
    by (simp add: scan_defs noFaults_def showA_def scanStore_def scanWorld_def touchUpdater_def failingUpdater_def)
  have h4: "getInfoUpdater (siteType ?l2) = Some BangumiAnimeInfoUpdater"
    by (simp add: getInfoUpdater_def)
  have h5: "failingUpdater ''2'' BangumiAnimeInfoUpdater (store ?w1) (siteId ?l2)
              = (Some (OtherError ''network''), ?d1)"
    by (simp add: failingUpdater_def)
  from updater_error_stops_scan [OF h1 h2 h3 h4 h5] show ?thesis
    by (simp add: logger_def)
qed

text \<open>
  The claim as written (the error is caught per link and the rest of the links are
  dispatched) fails: the updater throws on the second of three stale links, the scan
  returns that error and the third link is never dispatched.
\<close>

theorem updater_error_propagates_counterexample:
  "map siteId (allSitesOutdated [(showA, siteLinks scanStore)] 10) = [''1'', ''2'', ''4'']
   \<and> fst (updateAllInfo (failingUpdater ''2'') noFaults 10 scanWorld)
       = Some (OtherError ''network'')
   \<and> calls (snd (updateAllInfo (failingUpdater ''2'') noFaults 10 scanWorld)) =
       [(BangumiAnimeInfoUpdater, ''1''), (BangumiAnimeInfoUpdater, ''2'')]"
  by (simp add: scan_defs noFaults_def showA_def scanStore_def scanWorld_def touchUpdater_def failingUpdater_def)

text \<open>
  C5. Claimed: a link whose \<open>lastUpdate\<close> is null is dispatched whatever the cutoff.
  The query does select it (its \<open>OR\<close> names the null case), but the filter that follows
  compares with \<open>site.lastUpdate <= before\<close>, where null counts as 0: for a cutoff
  before 1970 (time value \<open>-1\<close>) the never-refreshed link of the example store is
  found by the query and dropped by the filter, and nothing is dispatched.
\<close>

theorem null_link_dropped_before_epoch:
  "anime_findMany noFaults scanStore (- 1) = Inr [(showA, siteLinks scanStore)]
   \<and> map lastUpdate (siteLinks scanStore) = [Some 5, None, Some 20, Some 7]
   \<and> allSitesOutdated [(showA, siteLinks scanStore)] (- 1) = []
   \<and> updateAllInfo (touchUpdater 100) noFaults (- 1) scanWorld =
        (None, scanWorld\<lparr>logs := [InfoUpdated (- 1)]\<rparr>)"
  by (simp add: scan_defs noFaults_def showA_def scanStore_def scanWorld_def touchUpdater_def)

text \<open>
  C7. No link whose \<open>lastUpdate\<close> is later than the cutoff is in the list the scan
  dispatches, whatever other links its anime has: the filter is applied to each link.
  Every call the scan makes is for a link of that list, in its order.
\<close>

theorem scan_never_dispatches_fresh_link:
  assumes "anime_findMany F (store w) before = Inr found"
  shows "(\<forall>site \<in> set (allSitesOutdated found before).
            \<forall>t. lastUpdate site = Some t \<longrightarrow> t \<le> before)
       \<and> (\<exists>n. calls (snd (updateAllInfo U F before w)) =
                calls w @ map (\<lambda>site. (BangumiAnimeInfoUpdater, siteId site))
                            (take n (allSitesOutdated found before)))"
proof
  show "\<forall>site \<in> set (allSitesOutdated found before). \<forall>t. lastUpdate site = Some t \<longrightarrow> t \<le> before"
    using allSitesOutdated_stale by (fastforce simp: js_lte_def)
next
  obtain r w' where loop: "forOf (allSitesOutdated found before) (updateSite U) w = (r, w')"
    by (cases "forOf (allSitesOutdated found before) (updateSite U) w")
  have "calls (snd (updateAllInfo U F before w)) = calls w'"
    using assms loop by (cases r) (simp_all add: updateAllInfo_def)
  with forOf_updateSite_calls[OF loop] show "\<exists>n. calls (snd (updateAllInfo U F before w)) =
                calls w @ map (\<lambda>site. (BangumiAnimeInfoUpdater, siteId site))
                            (take n (allSitesOutdated found before))" by simp
qed

theorem scan_never_dispatches_fresh_link_witness:
  "anime_findMany noFaults (store scanWorld) 10 = Inr [(showA, siteLinks scanStore)]
   \<and> map lastUpdate (siteLinks scanStore) = [Some 5, None, Some 20, Some 7]
   \<and> map siteId (allSitesOutdated [(showA, siteLinks scanStore)] 10) = [''1'', ''2'', ''4'']
   \<and> calls (snd (updateAllInfo (touchUpdater 100) noFaults 10 scanWorld)) =
         [(BangumiAnimeInfoUpdater, ''1''), (BangumiAnimeInfoUpdater, ''2''),
          (BangumiAnimeInfoUpdater, ''4'')]"
proof -
  have h: "anime_findMany noFaults (store scanWorld) 10 = Inr [(showA, siteLinks scanStore)]"
    by (simp add: scan_defs noFaults_def showA_def scanStore_def scanWorld_def touchUpdater_def)
  from scan_never_dispatches_fresh_link [OF h, of "touchUpdater 100"] h show ?thesis
    by (simp add: scan_defs noFaults_def showA_def scanStore_def scanWorld_def touchUpdater_def)
qed

text \<open>
  C8. The scan changes the store only through the updaters it calls: the store it
  leaves is the one the recorded calls produce, one after the other, from the store it
  started with. So whatever every updater call leaves unchanged (\<open>obs\<close>: a table, a
  column such as \<open>lastUpdate\<close>, the whole store), the scan leaves unchanged.
\<close>

theorem scanner_changes_store_only_through_updaters:
  "(\<exists>cs. calls (snd (updateAllInfo U F before w)) = calls w @ cs
        \<and> store (snd (updateAllInfo U F before w)) =
            foldl (\<lambda>d (u, sid). snd (U u d sid)) (store w) cs)
   \<and> ((\<forall>u d sid. obs (snd (U u d sid)) = obs d) \<longrightarrow>
        obs (store (snd (updateAllInfo U F before w))) = obs (store w))"
proof -
  have A: "\<exists>cs. calls (snd (updateAllInfo U F before w)) = calls w @ cs
        \<and> store (snd (updateAllInfo U F before w)) =
            foldl (\<lambda>d (u, sid). snd (U u d sid)) (store w) cs"
  proof (cases "anime_findMany F (store w) before")
    case (Inl e)
    then have "snd (updateAllInfo U F before w) = w" by (simp add: updateAllInfo_def)
    then show ?thesis by (intro exI[of _ "[]"]) simp
  next
    case (Inr found)
    obtain r w' where loop: "forOf (allSitesOutdated found before) (updateSite U) w = (r, w')"
      by (cases "forOf (allSitesOutdated found before) (updateSite U) w")
    have "calls (snd (updateAllInfo U F before w)) = calls w'
        \<and> store (snd (updateAllInfo U F before w)) = store w'"
      using Inr loop by (cases r) (simp_all add: updateAllInfo_def)
    with forOf_updateSite_frame[OF loop] show ?thesis by simp
  qed
  have B: "obs (foldl (\<lambda>d (u, sid). snd (U u d sid)) d cs) = obs d"
    if "\<forall>u d sid. obs (snd (U u d sid)) = obs d" for cs d
    using that by (induction cs arbitrary: d) (auto split: prod.splits)
  from A B show ?thesis by metis
qed

theorem scanner_changes_store_only_through_updaters_witness:
  "(\<forall>u d sid. libFiles (snd (touchUpdater 100 u d sid)) = libFiles d)
   \<and> libFiles (store (snd (updateAllInfo (touchUpdater 100) noFaults 10 scanWorld)))
       = libFiles scanStore
   \<and> store (snd (updateAllInfo (touchUpdater 100) noFaults 10 scanWorld)) =
       foldl (\<lambda>d (u, sid). snd (touchUpdater 100 u d sid)) scanStore
         [(BangumiAnimeInfoUpdater, ''1''), (BangumiAnimeInfoUpdater, ''2''),
          (BangumiAnimeInfoUpdater, ''4'')]"
proof -
  have h: "\<forall>u d sid. libFiles (snd (touchUpdater 100 u d sid)) = libFiles d"
    by (simp add: touchUpdater_def)
  from scanner_changes_store_only_through_updaters
         [of "touchUpdater 100" noFaults 10 scanWorld libFiles] h
  show ?thesis
    by (simp add: scan_defs noFaults_def showA_def scanStore_def scanWorld_def touchUpdater_def)
qed

subsection \<open>Applying a scrape result\<close>

text \<open>
  C2 (amended). A failure while attaching one proposed site link ends the item: the
  links after it are not attempted and the files are not associated (the anime that was
  created and the links attached before the failure stay). The error is caught by the
  item's \<open>catch\<close> and logged, and the loop goes on with the next item.
\<close>

theorem site_link_failure_aborts_item:
  assumes "anime_create F (store w) (new_anime x) = Inr (a, d1)"
    and "s_sites (new_anime x) = pre @ k # post"
    and "forOf pre (addSiteLink F a x)
           (logger (InfoCreated (s_name (new_anime x))) (w\<lparr>store := d1\<rparr>)) = (None, w2)"
    and "anime_update_connectOrCreate F (store w2) (anime_id a) k = Inl e"
  shows "newAnimeItem F x w = (None, logger (ErrorCreate e) w2)
       \<and> libFiles (store w2) = libFiles (store w)
       \<and> forOf (x # rest) (newAnimeItem F) w
           = forOf rest (newAnimeItem F) (logger (ErrorCreate e) w2)"
proof -
  have item: "newAnimeItem F x w = (None, logger (ErrorCreate e) w2)"
    using assms
    by (simp add: newAnimeItem_def tryCatch_def createNewAnime_def forOf_append addSiteLink_def)
  have "libFiles (store w2) =
          libFiles (store (logger (InfoCreated (s_name (new_anime x))) (w\<lparr>store := d1\<rparr>)))"
    using addSiteLinks_keep(2)[of pre F a x] assms(3) by (metis snd_conv)
  then have "libFiles (store w2) = libFiles (store w)"
    using anime_create_Inr[OF assms(1)] by simp
  with item show ?thesis by simp
qed

theorem site_link_failure_aborts_item_witness:
  "fst (newAnimeItem linkFaults itemB ownedWorld) = None
   \<and> logs (snd (newAnimeItem linkFaults itemB ownedWorld))
       = [InfoCreated ''Show B'', TraceSite ''Show B'' ''Bangumi'' ''456'',
          ErrorCreate (OtherError ''link'')]
   \<and> map siteId (siteLinks (store (snd (newAnimeItem linkFaults itemB ownedWorld))))
       = [''123'', ''456'']
   \<and> libFiles (store (snd (newAnimeItem linkFaults itemB ownedWorld))) = libFiles ownedStore"
proof -
  let ?c = "projr (anime_create linkFaults (store ownedWorld) (new_anime itemB))"
  let ?w1 = "logger (InfoCreated (s_name (new_anime itemB))) (ownedWorld\<lparr>store := snd ?c\<rparr>)"
  let ?w2 = "snd (forOf [bangumi ''456''] (addSiteLink linkFaults (fst ?c) itemB) ?w1)"
  have h1: "anime_create linkFaults (store ownedWorld) (new_anime itemB) = Inr (fst ?c, snd ?c)"
    by (simp add: apply_defs noFaults_def showA_def file10_def file11_def ownedStore_def ownedWorld_def scraped_def bangumi_def itemB_def batchB_def linkFaults_def)
  have h2: "s_sites (new_anime itemB) = [bangumi ''456''] @ bangumi ''123'' # [bangumi ''789'']"
    by (simp add: itemB_def scraped_def)
  have h3: "forOf [bangumi ''456''] (addSiteLink linkFaults (fst ?c) itemB) ?w1 = (None, ?w2)"
    by (simp add: apply_defs noFaults_def showA_def file10_def file11_def ownedStore_def ownedWorld_def scraped_def bangumi_def itemB_def batchB_def linkFaults_def)
  have h4: "anime_update_connectOrCreate linkFaults (store ?w2) (anime_id (fst ?c))
              (bangumi ''123'') = Inl (OtherError ''link'')"
    by (simp add: apply_defs noFaults_def showA_def file10_def file11_def ownedStore_def ownedWorld_def scraped_def bangumi_def itemB_def batchB_def linkFaults_def)
  from site_link_failure_aborts_item [OF h1 h2 h3 h4, of "[]"]
  have "newAnimeItem linkFaults itemB ownedWorld
          = (None, logger (ErrorCreate (OtherError ''link'')) ?w2)"
    by (rule conjunct1)
  then show ?thesis
    by (simp add: addSiteLink_def anime_create_def anime_update_connectOrCreate_def Let_def
          sameKey_def logger_def noFaults_def showA_def file10_def file11_def ownedStore_def ownedWorld_def scraped_def bangumi_def itemB_def batchB_def linkFaults_def)
qed

text \<open>
  The claim as written (the remaining links are still attempted and the files are still
  associated) fails: of the links 456, 123 and 789 the second is rejected, so 789 is
  never attached and the files 10 and 11 keep no anime.
\<close>

theorem site_link_failure_counterexample:
  "map in_siteId (s_sites (new_anime itemB)) = [''456'', ''123'', ''789'']
   \<and> map file_id (new_files itemB) = [10, 11]
   \<and> map siteId (siteLinks (store (snd (applyLibraryScraperResult linkFaults batchB ownedWorld))))
       = [''123'', ''456'']
   \<and> map file_animeId
         (libFiles (store (snd (applyLibraryScraperResult linkFaults batchB ownedWorld))))
       = [None, None]
   \<and> logs (snd (applyLibraryScraperResult linkFaults batchB ownedWorld))
       = [InfoCreated ''Show B'', TraceSite ''Show B'' ''Bangumi'' ''456'',
          ErrorCreate (OtherError ''link'')]"
  by (simp add: apply_defs noFaults_def showA_def file10_def file11_def ownedStore_def ownedWorld_def scraped_def bangumi_def itemB_def batchB_def linkFaults_def)





subsection \<open>Changing a password\<close>

text \<open>
  C9. For a password the validator accepts, a store update that fails makes
  \<open>changePassword\<close> throw \<open>UserNotFoundError\<close> when the error is a known request error
  with code \<open>P2025\<close>, and return normally, with the users as they were, for any other
  error.
\<close>

theorem changePassword_swallows_other_store_errors:
  assumes "isSecurePassword newPassword"
    and "user_update G us userId ''Sha256'' (stringify newPassword) = Inl e"
  shows "changePassword isSecurePassword stringify G us userId newPassword =
           (if e = PrismaClientKnownRequestError ''P2025'' then Some UserNotFoundError else None,
            us)"
  using assms by (cases e) (simp_all add: changePassword_def)

theorem changePassword_swallows_other_store_errors_witness:
  "changePassword (\<lambda>p. 7 \<le> length p) (\<lambda>p. ''sha256:'' @ p) connectionLost someUsers 1
       ''abcdefg1'' = (None, someUsers)
   \<and> changePassword (\<lambda>p. 7 \<le> length p) (\<lambda>p. ''sha256:'' @ p) (\<lambda>us userId. None) someUsers 2
       ''abcdefg1'' = (Some UserNotFoundError, someUsers)"
proof -
  have s: "7 \<le> length ''abcdefg1''" by simp
  have lost: "user_update connectionLost someUsers 1 ''Sha256'' (''sha256:'' @ ''abcdefg1'')
                = Inl (OtherError ''connection lost'')"
    by (simp add: user_update_def connectionLost_def)
  have missing: "user_update (\<lambda>us userId. None) someUsers 2 ''Sha256'' (''sha256:'' @ ''abcdefg1'')
                = Inl (PrismaClientKnownRequestError ''P2025'')"
    by (simp add: user_update_def someUsers_def)
  from changePassword_swallows_other_store_errors
         [of "\<lambda>p. 7 \<le> length p" "''abcdefg1''" connectionLost someUsers 1
             "\<lambda>p. ''sha256:'' @ p", OF s lost]
       changePassword_swallows_other_store_errors
         [of "\<lambda>p. 7 \<le> length p" "''abcdefg1''" "\<lambda>us userId. None" someUsers 2
             "\<lambda>p. ''sha256:'' @ p", OF s missing]
  show ?thesis by simp
qed

subsection \<open>Reading files\<close>

text \<open>
  C10. Every file that \<open>getFile\<close>, \<open>getFirstSubFiles\<close>, \<open>getFirstSubFilesWithNoAnime\<close>
  or \<open>getAllSubFiles\<close> returns is not removed and belongs to the reader's library.
\<close>

theorem reader_returns_live_files_of_own_library:
  "(\<forall>f. getFile N F library d p = Inr (Some f) \<longrightarrow>
          removed f = False \<and> libraryId f = library)
   \<and> (\<forall>fs. getFirstSubFiles N F library d p = Inr fs \<longrightarrow>
          (\<forall>f \<in> set fs. removed f = False \<and> libraryId f = library))
   \<and> (\<forall>fs. getFirstSubFilesWithNoAnime N F library d p = Inr fs \<longrightarrow>
          (\<forall>f \<in> set fs. removed f = False \<and> libraryId f = library))
   \<and> (\<forall>fs. getAllSubFiles N F library d p = Inr fs \<longrightarrow>
          (\<forall>f \<in> set fs. removed f = False \<and> libraryId f = library))"
proof -
  have one: "removed f = False \<and> libraryId f = library"
    if "getFile N F library d p = Inr (Some f)" for f
  proof -
    from that have "find (\<lambda>f. libraryId f = library \<and> path f = fst (parse N p)
                 \<and> file_name f = snd (parse N p) \<and> removed f = False) (libFiles d) = Some f"
      by (simp add: getFile_def libFile_findUnique_def Let_def split: option.splits)
    then show ?thesis by (auto simp: find_Some_iff)
  qed
  have first: "\<forall>f \<in> set fs. removed f = False \<and> libraryId f = library"
    if "getFirstSubFiles N F library d p = Inr fs" for fs
    using that
    by (auto simp: getFirstSubFiles_def libFile_findMany_def Let_def split: option.splits)
  have noAnime: "\<forall>f \<in> set fs. removed f = False \<and> libraryId f = library"
    if "getFirstSubFilesWithNoAnime N F library d p = Inr fs" for fs
    using that
    by (auto simp: getFirstSubFilesWithNoAnime_def libFile_findMany_def Let_def
             split: option.splits)
  have all: "\<forall>f \<in> set fs. removed f = False \<and> libraryId f = library"
    if "getAllSubFiles N F library d p = Inr fs" for fs
    using that
    by (auto simp: getAllSubFiles_def libFile_findMany_def Let_def split: option.splits)
  from one first noAnime all show ?thesis by blast
qed

theorem reader_returns_live_files_of_own_library_witness:
  "map (\<lambda>f. (file_id f, libraryId f, removed f)) (libFiles scanStore)
     = [(10, 1, False), (11, 1, True), (12, 2, False), (13, 1, False)]
   \<and> getFile posixPath noFaults 1 scanStore ''/a/x.mkv'' = Inr (Some file10)
   \<and> getFile posixPath noFaults 1 scanStore ''/a/y.mkv'' = Inr None
   \<and> getFirstSubFiles posixPath noFaults 1 scanStore ''/a'' = Inr [file10]
   \<and> getFirstSubFilesWithNoAnime posixPath noFaults 1 scanStore ''/a'' = Inr [file10]
   \<and> getAllSubFiles posixPath noFaults 1 scanStore ''/a'' = Inr [file10, file13]"
proof -
  have files: "map (\<lambda>f. (file_id f, libraryId f, removed f)) (libFiles scanStore)
     = [(10, 1, False), (11, 1, True), (12, 2, False), (13, 1, False)]"
    by (simp add: noFaults_def scanStore_def file10_def file11_def file12_def file13_def posixPath_def)
  have one: "getFile posixPath noFaults 1 scanStore ''/a/x.mkv'' = Inr (Some file10)"
    by (simp add: getFile_def libFile_findUnique_def noFaults_def scanStore_def file10_def file11_def file12_def file13_def posixPath_def)
  have gone: "getFile posixPath noFaults 1 scanStore ''/a/y.mkv'' = Inr None"
    by (simp add: getFile_def libFile_findUnique_def noFaults_def scanStore_def file10_def file11_def file12_def file13_def posixPath_def)
  have first: "getFirstSubFiles posixPath noFaults 1 scanStore ''/a'' = Inr [file10]"
    by (simp add: getFirstSubFiles_def libFile_findMany_def noFaults_def scanStore_def file10_def file11_def file12_def file13_def posixPath_def)
  have noAnime: "getFirstSubFilesWithNoAnime posixPath noFaults 1 scanStore ''/a'' = Inr [file10]"
    by (simp add: getFirstSubFilesWithNoAnime_def libFile_findMany_def noFaults_def scanStore_def file10_def file11_def file12_def file13_def posixPath_def)
  have sub: "getAllSubFiles posixPath noFaults 1 scanStore ''/a'' = Inr [file10, file13]"
    by (simp add: getAllSubFiles_def libFile_findMany_def noFaults_def scanStore_def file10_def file11_def file12_def file13_def posixPath_def)
  from reader_returns_live_files_of_own_library [of posixPath noFaults 1 scanStore "''/a''"]
    files one gone first noAnime sub
  show ?thesis by simp
qed

end
